theory Spec2Isabelle
  imports Main
begin

section \<open>Table-name derivation\<close>

text \<open>
  \<^verbatim>\<open>base.py\<close>, lines 25-27 and 73-75 (the two classes carry the same body):
  \<^verbatim>\<open>
  def __tablename__(cls) -> str:
      return re.sub(r'([a-z\d])([A-Z])', r'\1_\2', cls.__name__).lower()
  \<close>
  A class name is a \<open>string\<close>; a character is read as the code point of its number
  (\<open>of_char\<close>), so the model covers names over the code points 0 to 255. On that range
  the pattern class \<open>[a-z\d]\<close> is the ASCII lower-case letters and the ASCII digits,
  \<open>[A-Z]\<close> is the ASCII capitals, and \<open>str.lower\<close> maps the ASCII capitals and the
  Latin-1 capitals (192 to 222 without the multiplication sign 215) to the code point 32
  above them and leaves every other character alone.
\<close>

definition is_lower_or_digit :: "char \<Rightarrow> bool" where
  "is_lower_or_digit c =
     (let n = (of_char c :: nat) in (97 \<le> n \<and> n \<le> 122) \<or> (48 \<le> n \<and> n \<le> 57))"

definition is_upper :: "char \<Rightarrow> bool" where
  "is_upper c = (let n = (of_char c :: nat) in 65 \<le> n \<and> n \<le> 90)"

text \<open>
  \<open>re.sub\<close> scans from the left. Where the two characters at the scan position match
  the pattern, both are consumed, the replacement \<open>\1_\2\<close> is written and the scan goes
  on behind them; otherwise one character is copied and the scan moves by one.
\<close>

fun re_sub :: "string \<Rightarrow> string" where
  "re_sub (a # b # cs) =
     (if is_lower_or_digit a \<and> is_upper b then a # CHR ''_'' # b # re_sub cs
      else a # re_sub (b # cs))"
| "re_sub cs = cs"

definition lower_char :: "char \<Rightarrow> char" where
  "lower_char c =
     (let n = (of_char c :: nat)
      in if (65 \<le> n \<and> n \<le> 90) \<or> (192 \<le> n \<and> n \<le> 222 \<and> n \<noteq> 215)
         then char_of (n + 32) else c)"

definition lower :: "string \<Rightarrow> string" where
  "lower s = map lower_char s"

definition tablename :: "string \<Rightarrow> string" where
  "tablename cls_name = lower (re_sub cls_name)"

text \<open>
  The rule in the words of the specification, to compare \<open>tablename\<close> with: an underscore
  goes between every lower-case-or-digit character and an upper-case character that
  follows it, at every position of the name, and the whole string is lower-cased.
\<close>

fun insert_underscores :: "string \<Rightarrow> string" where
  "insert_underscores (a # b # cs) =
     (if is_lower_or_digit a \<and> is_upper b then a # CHR ''_'' # insert_underscores (b # cs)
      else a # insert_underscores (b # cs))"
| "insert_underscores cs = cs"

definition snake_case_spec :: "string \<Rightarrow> string" where
  "snake_case_spec s = map lower_char (insert_underscores s)"

text \<open>
  A CamelCase name: not empty, a capital first, and only ASCII letters and digits.
\<close>

definition camel_case :: "string \<Rightarrow> bool" where
  "camel_case s =
     (s \<noteq> [] \<and> is_upper (hd s) \<and> list_all (\<lambda>c. is_upper c \<or> is_lower_or_digit c) s)"

section \<open>Values, entities and the model class\<close>

text \<open>
  A column value, as the engine stores it and as Python passes it in a keyword argument:
  \<open>None\<close> (SQL \<open>NULL\<close>), an integer, a string, a boolean or a timestamp (a reading of
  the clock, counted in ticks).
\<close>

datatype val = VNull | VInt int | VStr string | VBool bool | VTime nat

text \<open>
  A dictionary from attribute names to values: the keyword arguments of a call, the
  attributes of an instance, a row of the mapped table. An attribute that is not set
  reads as \<open>NULL\<close>.
\<close>

type_synonym row = "string \<rightharpoonup> val"

definition col :: "row \<Rightarrow> string \<Rightarrow> val" where
  "col r k = (case r k of None \<Rightarrow> VNull | Some v \<Rightarrow> v)"

datatype error =
    ArgumentError
  | DataError
  | IntegrityError
  | InvalidRequestError
  | ProgrammingError string
  | StaleDataError
  | TypeError
  | ValueError string

text \<open>
  What the operations read of \<open>cls\<close>: its name, the value bound to the \<open>onupdate\<close>
  hook of \<open>deleted_at\<close>, the names of its mapped attributes, and what the engine
  refuses at an insert besides what \<open>Base\<close> declares.
  \<^verbatim>\<open>
  deleted_at: Optional[datetime] = Field(
      sa_column_kwargs={'onupdate': datetime.now()})
  \<close>
  \<open>datetime.now()\<close> is an argument of the call that builds the field, so it is evaluated
  once, while the class body runs; \<open>deleted_at_onupdate\<close> is that reading of the clock.
  \<open>mapped\<close> is true of the fields of \<open>Base\<close> and of the fields a subclass adds.
  \<open>refuses\<close> stands for whatever else makes the engine raise for an insert and its
  commit: the constraints of the columns a subclass declares, values the engine cannot
  store in them, a connection that fails. From the rows of the table and the row to
  insert it gives the error raised, if any.
\<close>

record model_class =
  cls_name :: string
  deleted_at_onupdate :: nat
  mapped :: "string \<Rightarrow> bool"
  refuses :: "row list \<Rightarrow> row \<Rightarrow> error option"

text \<open>
  An instance of the class in memory: its attributes, the primary key of the row it is
  bound to (\<open>None\<close> while the instance is new and has no row), and the names of the
  attributes changed since it was loaded.
\<close>

record entity =
  attrs :: row
  identity_key :: "val option"
  modified :: "string set"

section \<open>The table of the class inside one transaction\<close>

text \<open>
  The rows of the table mapped to the class as one transaction sees them, in the order
  in which the engine returns them, the next value of the key sequence, and the clock.
\<close>

record session =
  rows :: "row list"
  next_id :: int
  clock :: nat


text \<open>The instance the session builds for a row it has read.\<close>

definition loaded :: "row \<Rightarrow> entity" where
  "loaded r = \<lparr>attrs = r, identity_key = Some (col r ''id''), modified = {}\<rparr>"


text \<open>\<open>session.add(instance)\<close>: the session with the instance registered.\<close>

definition session_add :: "session \<Rightarrow> entity \<Rightarrow> session \<times> entity" where
  "session_add s i = (s, i)"

text \<open>
  \<open>INSERT\<close>. The engine gives the row a key from the sequence when its \<open>id\<close> is
  \<open>NULL\<close>. \<open>id\<close> is the primary key, an \<open>INTEGER\<close> column of 32 bits
  (\<^verbatim>\<open>id: Optional[int] = Field(default=None, primary_key=True)\<close>), and \<open>created_at\<close> and
  \<open>updated_at\<close> are not optional, so their columns do not take \<open>NULL\<close>. The engine
  raises \<open>DataError\<close> for a key outside the range of the column and
  \<open>IntegrityError\<close> for a null timestamp and for a key that a row of the table has
  already; then it asks the other constraints of the table.
\<close>

definition in_integer_range :: "int \<Rightarrow> bool" where
  "in_integer_range i = (- 2147483648 \<le> i \<and> i \<le> 2147483647)"

definition assigned_key :: "session \<Rightarrow> row \<Rightarrow> val" where
  "assigned_key s a = (case col a ''id'' of VNull \<Rightarrow> VInt (next_id s) | v \<Rightarrow> v)"

definition insert_error :: "model_class \<Rightarrow> session \<Rightarrow> row \<Rightarrow> error option" where
  "insert_error cls s a =
     (if (case assigned_key s a of VInt i \<Rightarrow> \<not> in_integer_range i | _ \<Rightarrow> False)
      then Some DataError
      else if col a ''created_at'' = VNull \<or> col a ''updated_at'' = VNull
      then Some IntegrityError
      else if assigned_key s a \<in> set (map (\<lambda>r. col r ''id'') (rows s))
      then Some IntegrityError
      else refuses cls (rows s) (a(''id'' \<mapsto> assigned_key s a)))"

definition sql_insert :: "model_class \<Rightarrow> session \<Rightarrow> row \<Rightarrow> error + session \<times> row" where
  "sql_insert cls s a =
     (case insert_error cls s a of
        Some e \<Rightarrow> Inl e
      | None \<Rightarrow>
          (case col a ''id'' of
             VNull \<Rightarrow>
               (let r = a(''id'' \<mapsto> VInt (next_id s))
                in Inr (s\<lparr>rows := rows s @ [r], next_id := next_id s + 1\<rparr>, r))
           | _ \<Rightarrow> Inr (s\<lparr>rows := rows s @ [a]\<rparr>, a)))"

text \<open>
  \<open>UPDATE ... SET\<close> on one row: the assigned columns take their new values, and a
  column with an \<open>onupdate\<close> value takes it when the statement does not assign the
  column itself. \<open>deleted_at\<close> is the only column of the class with such a value.
\<close>

definition sql_update :: "model_class \<Rightarrow> row \<Rightarrow> row \<Rightarrow> row" where
  "sql_update cls sets r =
     (let r' = r ++ sets
      in if ''deleted_at'' \<in> dom sets then r'
         else r'(''deleted_at'' \<mapsto> VTime (deleted_at_onupdate cls)))"

text \<open>
  \<open>session.commit()\<close> on a session that holds the registered instance and no other
  work: it flushes the instance and commits. A new instance is inserted, and the
  error of the engine is raised when the engine refuses the row. An instance bound to
  a row is updated where its key is, with the attributes changed since it was loaded;
  no statement is sent when nothing was changed, and the flush raises when no row has
  the key. The instance then reads what the row holds.
\<close>

definition session_commit ::
  "model_class \<Rightarrow> session \<times> entity \<Rightarrow> error + session \<times> entity" where
  "session_commit cls w =
     (case w of (s, i) \<Rightarrow>
        (case identity_key i of
           None \<Rightarrow>
             (case sql_insert cls s (attrs i) of
                Inl e \<Rightarrow> Inl e
              | Inr (s', r) \<Rightarrow> Inr (s', loaded r))
         | Some key \<Rightarrow>
             if modified i = {} then Inr (s, i)
             else
               (case find (\<lambda>r. col r ''id'' = key) (rows s) of
                  None \<Rightarrow> Inl StaleDataError
                | Some r0 \<Rightarrow>
                    (let sets = attrs i |` modified i
                     in Inr (s\<lparr>rows := map (\<lambda>r. if col r ''id'' = key
                                                  then sql_update cls sets r else r) (rows s)\<rparr>,
                             loaded (sql_update cls sets r0))))))"

section \<open>The session with its pending work\<close>







section \<open>The persistence model: \<^verbatim>\<open>BasesqlModel\<close>\<close>


text \<open>
  \<^verbatim>\<open>
  def save(self, session):
      session.add(self)
      session.commit()
      return self
  \<close>
  \<open>cls\<close> is the class of \<open>self\<close>. \<open>save\<close> is stated on a session that holds no other
  work, by the table inside its transaction.
\<close>

definition save :: "model_class \<Rightarrow> entity \<Rightarrow> session \<Rightarrow> error + entity \<times> session" where
  "save cls self s =
     (case session_commit cls (session_add s self) of
        Inl e \<Rightarrow> Inl e
      | Inr (s', self') \<Rightarrow> Inr (self', s'))"



section \<open>The database gateway: \<^verbatim>\<open>db_pgsql.py\<close>\<close>

text \<open>
  The engine's database: the tables by name, each with its columns and its rows.
\<close>

record column =
  col_name :: val
  col_type :: val
  primary_key :: val
  nullable :: val

record stored_table =
  st_columns :: "column list"
  st_rows :: "val list list"

record engine =
  tables :: "string \<rightharpoonup> stored_table"

text \<open>
  \<^verbatim>\<open>
  def get_table_data(engine, table_name):
      with engine.connect() as connection:
          result = connection.execute(text(f"SELECT * FROM {table_name}"))
          return result.fetchall()

  def validate_table_exists(engine, table_name) -> bool:
      with engine.connect() as connection:
          result = connection.execute(text(f"SELECT * FROM {table_name}"))
          return bool(result.fetchall())
  \<close>
  The name is pasted into the text of the statement as it is, without quotes, so what
  the statement reads is for the database to say: a name in capitals is folded, a
  reserved word is a syntax error, and a longer text is a different statement. The
  answer of the database to a statement text, the rows fetched or the error raised, is
  the parameter \<open>execute\<close>. The two functions of the module carry the prefix
  \<open>pgsql\<close> here; the class methods of the same names follow below. \<open>bool\<close> of a list
  is whether it is not empty.
\<close>

definition pgsql_get_table_data ::
  "(engine \<Rightarrow> string \<Rightarrow> error + val list list) \<Rightarrow> engine \<Rightarrow> string \<Rightarrow> error + val list list" where
  "pgsql_get_table_data execute e table_name = execute e (''SELECT * FROM '' @ table_name)"

definition pgsql_validate_table_exists ::
  "(engine \<Rightarrow> string \<Rightarrow> error + val list list) \<Rightarrow> engine \<Rightarrow> string \<Rightarrow> error + bool" where
  "pgsql_validate_table_exists execute e table_name =
     (case execute e (''SELECT * FROM '' @ table_name) of
        Inl err \<Rightarrow> Inl err
      | Inr rs \<Rightarrow> Inr (rs \<noteq> []))"

section \<open>Tables and data frames in \<^verbatim>\<open>BasesqlModel\<close>\<close>

text \<open>
  What a caller can hand over as \<open>engine\<close>: the engine itself, as
  \<open>create_engine_and_session\<close> returns it and as every function of the gateway takes
  it, or a connection of the engine. Both reach the database.
\<close>

datatype handle = An_engine engine | A_connection engine

text \<open>
  \<open>Dialect.has_table(connection, table_name)\<close>, the schema inspection of the dialect:
  whether the database has the table; it does not read the rows. It raises
  \<open>ArgumentError\<close> when its first argument is not a connection.
\<close>

definition has_table :: "engine \<Rightarrow> string \<Rightarrow> bool" where
  "has_table e n = (tables e n \<noteq> None)"

definition dialect_has_table :: "handle \<Rightarrow> string \<Rightarrow> error + bool" where
  "dialect_has_table h n =
     (case h of
        A_connection e \<Rightarrow> Inr (has_table e n)
      | An_engine e \<Rightarrow> Inl ArgumentError)"

text \<open>
  \<^verbatim>\<open>
  def validate_table_exists(cls, engine, table_name):
      return engine.dialect.has_table(engine, table_name)
  \<close>
\<close>

definition validate_table_exists :: "model_class \<Rightarrow> handle \<Rightarrow> string \<Rightarrow> error + bool" where
  "validate_table_exists cls engine table_name = dialect_has_table engine table_name"

text \<open>A data frame: column labels and rows of values, one value for each label.\<close>

record dataframe =
  df_columns :: "val list"
  df_rows :: "val list list"

text \<open>\<open>pd.read_sql_table(table_name, engine)\<close>: the whole table as a data frame.\<close>

definition read_sql_table :: "string \<Rightarrow> engine \<Rightarrow> error + dataframe" where
  "read_sql_table n e =
     (case tables e n of
        None \<Rightarrow> Inl (ValueError n)
      | Some t \<Rightarrow> Inr \<lparr>df_columns = map col_name (st_columns t), df_rows = st_rows t\<rparr>)"

text \<open>
  \<^verbatim>\<open>
  def get_table(cls, engine, table_name):
      return pd.read_sql_table(table_name, engine)

  def get_table_data(cls, engine, table_name):
      return pd.read_sql_table(table_name, engine)
  \<close>
\<close>

definition get_table :: "model_class \<Rightarrow> engine \<Rightarrow> string \<Rightarrow> error + dataframe" where
  "get_table cls e n = read_sql_table n e"

definition get_table_data :: "model_class \<Rightarrow> engine \<Rightarrow> string \<Rightarrow> error + dataframe" where
  "get_table_data cls e n = read_sql_table n e"

section \<open>Validation of a data frame\<close>

text \<open>
  \<open>df.to_dict(orient='records')\<close>: one dictionary for each row, from the labels to the
  values of the row; of two columns with one label the later one stays.
\<close>

definition to_dict :: "dataframe \<Rightarrow> (val \<rightharpoonup> val) list" where
  "to_dict df = map (\<lambda>r. map_of (rev (zip (df_columns df) r))) (df_rows df)"

text \<open>The logger: the records it was given, each a level and a message.\<close>

datatype level = DEBUG | INFO | WARNING | ERROR | CRITICAL

type_synonym log = "(level \<times> string) list"

definition log_error :: "log \<Rightarrow> string \<Rightarrow> log" where
  "log_error lg msg = lg @ [(ERROR, msg)]"

text \<open>
  \<^verbatim>\<open>
  def validate_data(cls, df):
      class DataValidationModel(Base):
          __root__: list[cls]

      try:
          df_dict = df.to_dict(orient='records')
          return DataValidationModel.model_validate(df_dict)
      except Exception as e:
          log.error(f"Error: {e}")
          return e
  \<close>
  The class statement is run by the metaclass of the validation library, the version of
  it that \<open>model_validate\<close> and \<open>pydantic_settings\<close> (imported in line 8) belong to.
  That version has root models as a class of their own and refuses a class body with a
  field called \<open>__root__\<close>: the class statement raises \<open>TypeError\<close>.
\<close>

definition class_statement :: "string list \<Rightarrow> error option" where
  "class_statement names = (if ''__root__'' \<in> set names then Some TypeError else None)"

text \<open>
  The \<open>try\<close> statement. \<open>model_validate\<close> of the root model of \<open>cls\<close> is a
  parameter: on the list of records it gives the validated model or raises an
  exception, and \<open>str\<close> is the text of an exception. What a call gives back is the validated model or the exception, as a
  value, or the call raises; with it comes the log after the call.
\<close>

datatype ('m, 'e) outcome = Raised error | Validated 'm | Returned_error 'e

definition try_validate ::
  "((val \<rightharpoonup> val) list \<Rightarrow> 'e + 'm) \<Rightarrow> ('e \<Rightarrow> string) \<Rightarrow> log \<Rightarrow> dataframe \<Rightarrow>
     ('m, 'e) outcome \<times> log" where
  "try_validate model_validate str lg df =
     (case model_validate (to_dict df) of
        Inr m \<Rightarrow> (Validated m, lg)
      | Inl e \<Rightarrow> (Returned_error e, log_error lg (''Error: '' @ str e)))"

definition validate_data ::
  "model_class \<Rightarrow> ((val \<rightharpoonup> val) list \<Rightarrow> 'e + 'm) \<Rightarrow> ('e \<Rightarrow> string) \<Rightarrow> log \<Rightarrow>
     dataframe \<Rightarrow> ('m, 'e) outcome \<times> log" where
  "validate_data cls model_validate str lg df =
     (case class_statement [''__root__''] of
        Some e \<Rightarrow> (Raised e, lg)
      | None \<Rightarrow> try_validate model_validate str lg df)"

section \<open>Concrete inputs\<close>

text \<open>
  A class \<open>Widget\<close> defined at tick 5, with the fields of \<open>Base\<close> and a field \<open>name\<close>
  whose column does not take \<open>NULL\<close>, for the evaluations below.
\<close>

definition widget :: model_class where
  "widget =
     \<lparr>cls_name = ''Widget'', deleted_at_onupdate = 5,
      mapped = (\<lambda>k. k \<in> set [''id'', ''name'', ''created_at'', ''updated_at'', ''updated_by'',
                               ''deleted_at'', ''deleted_by'']),
      refuses = (\<lambda>rs r. if col r ''name'' = VNull then Some IntegrityError else None)\<rparr>"

text \<open>
  An engine whose database has the table \<open>widget\<close> with one row in it, and a database
  that answers the statement on that table with its rows and any other statement with
  an error.
\<close>

definition stocked_engine :: engine where
  "stocked_engine =
     \<lparr>tables = [''widget'' \<mapsto> \<lparr>st_columns = [], st_rows = [[VInt 1, VStr ''x'']]\<rparr>]\<rparr>"

definition widget_execute :: "engine \<Rightarrow> string \<Rightarrow> error + val list list" where
  "widget_execute e statement =
     (if statement = ''SELECT * FROM widget''
      then (case tables e ''widget'' of
              None \<Rightarrow> Inl (ProgrammingError statement)
            | Some t \<Rightarrow> Inr (st_rows t))
      else Inl (ProgrammingError statement))"


text \<open>
  A session at tick 20 with one row, written at tick 10, and the instance bound to that
  row after \<open>name\<close> was changed.
\<close>

definition one_row_session :: session where
  "one_row_session =
     \<lparr>rows = [[''id'' \<mapsto> VInt 1, ''name'' \<mapsto> VStr ''a'',
               ''created_at'' \<mapsto> VTime 10, ''updated_at'' \<mapsto> VTime 10]],
      next_id = 2, clock = 20\<rparr>"

definition renamed_widget :: entity where
  "renamed_widget =
     \<lparr>attrs = [''id'' \<mapsto> VInt 1, ''name'' \<mapsto> VStr ''b'',
               ''created_at'' \<mapsto> VTime 10, ''updated_at'' \<mapsto> VTime 10],
      identity_key = Some (VInt 1), modified = {''name''}\<rparr>"




section \<open>Properties of the table-name derivation\<close>

lemma upper_not_lower_or_digit: "is_upper c \<Longrightarrow> \<not> is_lower_or_digit c"
  by (simp add: is_upper_def is_lower_or_digit_def Let_def)

lemma re_sub_insert_underscores: "re_sub s = insert_underscores s"
proof (induction s rule: re_sub.induct)
  case (1 a b cs)
  then show ?case by (cases cs) (auto simp: upper_not_lower_or_digit)
qed simp_all

lemma lower_char_not_upper: "\<not> is_upper (lower_char c)"
  by (auto simp: lower_char_def is_upper_def Let_def)

lemma lower_char_idem: "lower_char (lower_char c) = lower_char c"
  by (auto simp: lower_char_def Let_def)

lemma re_sub_no_upper: "list_all (\<lambda>c. \<not> is_upper c) s \<Longrightarrow> re_sub s = s"
  by (induction s rule: re_sub.induct) auto

lemma hd_re_sub: "hd (re_sub s) = hd s"
  by (induction s rule: re_sub.induct) auto

lemma re_sub_nonempty: "s \<noteq> [] \<Longrightarrow> re_sub s \<noteq> []"
  by (induction s rule: re_sub.induct) auto

lemma lower_char_underscore: "lower_char c = CHR ''_'' \<longleftrightarrow> c = CHR ''_''"
proof -
  have "(of_char (lower_char c) :: nat) = 95 \<longleftrightarrow> (of_char c :: nat) = 95"
    by (auto simp: lower_char_def Let_def)
  moreover have "(of_char CHR ''_'' :: nat) = 95" by simp
  ultimately show ?thesis by (metis of_char_eq_iff)
qed

lemma tablename_hd:
  assumes "s \<noteq> []" and "hd s \<noteq> CHR ''_''"
  shows "tablename s \<noteq> [] \<and> hd (tablename s) \<noteq> CHR ''_''"
  using assms
  by (simp add: tablename_def lower_def re_sub_nonempty hd_map hd_re_sub lower_char_underscore)

text \<open>
  Claim C3. The table name is a function of the class name alone, and it is the rule of
  the specification: an underscore between every lower-case-or-digit character and an
  upper-case character that follows it, then the whole string in lower case. It gives
  \<open>user_profile\<close> for \<open>UserProfile\<close>, \<open>order\<close> for \<open>Order\<close> and \<open>order_item\<close> for
  \<open>OrderItem\<close>, and for a CamelCase name the result does not begin with an underscore.
\<close>

theorem tablename_snake_case:
  "tablename s = snake_case_spec s \<and>
   tablename ''UserProfile'' = ''user_profile'' \<and>
   tablename ''Order'' = ''order'' \<and>
   tablename ''OrderItem'' = ''order_item'' \<and>
   (camel_case t \<longrightarrow> tablename t \<noteq> [] \<and> hd (tablename t) \<noteq> CHR ''_'')"
proof -
  have spec: "tablename s = snake_case_spec s"
    by (simp add: tablename_def snake_case_spec_def lower_def re_sub_insert_underscores)
  have e1: "tablename ''UserProfile'' = ''user_profile''" by code_simp
  have e2: "tablename ''Order'' = ''order''" by code_simp
  have e3: "tablename ''OrderItem'' = ''order_item''" by code_simp
  have camel: "tablename t \<noteq> [] \<and> hd (tablename t) \<noteq> CHR ''_''" if c: "camel_case t"
  proof -
    from c have ne: "t \<noteq> []" and up: "is_upper (hd t)"
      by (simp_all add: camel_case_def)
    from up have "hd t \<noteq> CHR ''_''" by (auto simp: is_upper_def)
    with ne show ?thesis by (rule tablename_hd)
  qed
  from spec e1 e2 e3 camel show ?thesis by blast
qed

theorem tablename_snake_case_witness:
  "camel_case ''OrderItem'' \<and> tablename ''OrderItem'' \<noteq> [] \<and>
   hd (tablename ''OrderItem'') \<noteq> CHR ''_'' \<and>
   tablename ''HTTPServer2Go'' = snake_case_spec ''HTTPServer2Go''"
proof -
  have c: "camel_case ''OrderItem''" by code_simp
  from tablename_snake_case [of "''HTTPServer2Go''" "''OrderItem''"] c show ?thesis by blast
qed

text \<open>
  Claim C4. The derivation is idempotent: the table name of a table name is that table
  name again, for every string.
\<close>

theorem tablename_idempotent: "tablename (tablename s) = tablename s"
  by (simp add: tablename_def lower_def re_sub_no_upper list_all_iff
      lower_char_not_upper lower_char_idem)


section \<open>Properties of the gateway and of the table checks\<close>

text \<open>
  With a connection for a handle the check of the persistence model returns, and it is
  true exactly when the database has the table, whatever rows the table holds.
\<close>

lemma validate_table_exists_connection:
  "validate_table_exists cls (A_connection e) n = Inr (n \<in> dom (tables e))"
  by (auto simp: validate_table_exists_def dialect_has_table_def has_table_def)

text \<open>
  Claim C5 fails on the code. With the engine for a handle, which is what the parameter
  is called, what \<open>create_engine_and_session\<close> returns and what \<open>create_table\<close> and
  \<open>drop_table\<close> take, the check of the persistence model raises \<open>ArgumentError\<close>
  for every table name and every state of the database: it is not true after
  \<open>create_table\<close> and not false after \<open>drop_table\<close>, it does not return.
\<close>

theorem validate_table_exists_engine_raises:
  "validate_table_exists cls (An_engine e) n = Inl ArgumentError"
  by (simp add: validate_table_exists_def dialect_has_table_def)

text \<open>
  Claim C6. For every state of the database and every table name,
  \<open>validate_table_exists\<close> of the gateway returns true exactly when
  \<open>get_table_data\<close> returns at least one row, it returns false exactly when
  \<open>get_table_data\<close> returns no row, and it raises exactly the error that
  \<open>get_table_data\<close> raises, whatever the database answers to the statement.
\<close>

theorem pgsql_validate_table_exists_rows:
  "(pgsql_validate_table_exists execute e n = Inr True \<longleftrightarrow>
      (\<exists>rs. pgsql_get_table_data execute e n = Inr rs \<and> 1 \<le> length rs)) \<and>
   (pgsql_validate_table_exists execute e n = Inr False \<longleftrightarrow>
      pgsql_get_table_data execute e n = Inr []) \<and>
   (pgsql_validate_table_exists execute e n = Inl err \<longleftrightarrow>
      pgsql_get_table_data execute e n = Inl err)"
  by (cases "execute e (''SELECT * FROM '' @ n)")
    (auto simp: pgsql_get_table_data_def pgsql_validate_table_exists_def Suc_le_eq)

text \<open>
  On a database whose table \<open>widget\<close> holds one row both functions return, the check
  with true; the statement on \<open>order\<close> is refused and both raise.
\<close>

theorem pgsql_validate_table_exists_rows_witness:
  "pgsql_get_table_data widget_execute stocked_engine ''widget'' = Inr [[VInt 1, VStr ''x'']] \<and>
   pgsql_validate_table_exists widget_execute stocked_engine ''widget'' = Inr True \<and>
   pgsql_get_table_data widget_execute stocked_engine ''order'' =
     Inl (ProgrammingError ''SELECT * FROM order'') \<and>
   pgsql_validate_table_exists widget_execute stocked_engine ''order'' =
     Inl (ProgrammingError ''SELECT * FROM order'')"
proof -
  have g: "pgsql_get_table_data widget_execute stocked_engine ''widget'' = Inr [[VInt 1, VStr ''x'']]"
    by (simp add: pgsql_get_table_data_def widget_execute_def stocked_engine_def)
  have o: "pgsql_get_table_data widget_execute stocked_engine ''order'' =
     Inl (ProgrammingError ''SELECT * FROM order'')"
    by (simp add: pgsql_get_table_data_def widget_execute_def)
  from pgsql_validate_table_exists_rows
    [of widget_execute stocked_engine "''widget''" "ProgrammingError []"] g
  have v: "pgsql_validate_table_exists widget_execute stocked_engine ''widget'' = Inr True"
    by simp
  from pgsql_validate_table_exists_rows
    [of widget_execute stocked_engine "''order''" "ProgrammingError ''SELECT * FROM order''"] o
  have w: "pgsql_validate_table_exists widget_execute stocked_engine ''order'' =
     Inl (ProgrammingError ''SELECT * FROM order'')"
    by simp
  from g v o w show ?thesis by simp
qed

text \<open>
  Claim C10. \<open>get_table\<close> and \<open>get_table_data\<close> of the persistence model are the same
  operation: for every engine and table name both make the same bulk read and give the
  same data frame, or fail alike.
\<close>

theorem get_table_get_table_data: "get_table cls e n = get_table_data cls e n"
  by (simp add: get_table_def get_table_data_def)

section \<open>Properties of \<open>get_or_create\<close>\<close>
























section \<open>Properties of \<open>save\<close>\<close>

lemma save_new_assigns_id:
  assumes "identity_key self = None" and "insert_error cls s (attrs self) = None"
  shows "\<exists>self' s'. save cls self s = Inr (self', s') \<and> col (attrs self') ''id'' \<noteq> VNull \<and>
    rows s' = rows s @ [attrs self']"
  using assms
  by (auto simp: save_def session_commit_def session_add_def sql_insert_def loaded_def col_def
      Let_def split: val.splits option.splits)


lemma sql_update_keeps:
  "k \<notin> dom sets \<Longrightarrow> k \<noteq> ''deleted_at'' \<Longrightarrow> sql_update cls sets r k = r k"
  by (auto simp: sql_update_def Let_def map_add_def split: option.splits)


text \<open>
  Claim C2 fails on the code. \<open>save\<close> of an entity bound to a row, at tick 20, after
  \<open>name\<close> was changed: the row has the new name, \<open>updated_at\<close> is still tick 10, the
  value of \<open>created_at\<close>, and \<open>deleted_at\<close> is tick 5, when the class was defined.
\<close>

theorem save_keeps_updated_at:
  "clock one_row_session = 20 \<and>
   (case save widget renamed_widget one_row_session of
      Inl e \<Rightarrow> False
    | Inr (self', s') \<Rightarrow>
        map (\<lambda>r. (col r ''id'', col r ''name'', col r ''created_at'', col r ''updated_at'',
                  col r ''deleted_at'')) (rows s') =
          [(VInt 1, VStr ''b'', VTime 10, VTime 10, VTime 5)] \<and>
        col (attrs self') ''id'' = VInt 1 \<and>
        col (attrs self') ''created_at'' = VTime 10 \<and>
        col (attrs self') ''updated_at'' = VTime 10)"
  by (simp add: save_def session_commit_def session_add_def one_row_session_def
      renamed_widget_def widget_def sql_update_def loaded_def col_def Let_def)





section \<open>What \<open>validate_data\<close> gives back\<close>

text \<open>
  Whatever \<open>model_validate\<close> does, the \<open>try\<close> statement returns: the validated model
  as it is when \<open>model_validate\<close> returns one, with nothing logged, and otherwise the
  exception as a value, after one record of level \<open>ERROR\<close> with the text of the
  exception.
\<close>

lemma try_validate_returns:
  "(model_validate (to_dict df) = Inr m \<longrightarrow>
      try_validate model_validate str lg df = (Validated m, lg)) \<and>
   (model_validate (to_dict df) = Inl e \<longrightarrow>
      try_validate model_validate str lg df =
        (Returned_error e, lg @ [(ERROR, ''Error: '' @ str e)]))"
  by (auto simp: try_validate_def log_error_def)

text \<open>
  Claim C8 fails on the code. The class statement stands before the \<open>try\<close>
  statement, and it raises: for every data frame \<open>validate_data\<close> raises
  \<open>TypeError\<close>. No row is converted, nothing is logged, and the error is not
  returned as a value.
\<close>

theorem validate_data_raises:
  "validate_data cls model_validate str lg df = (Raised TypeError, lg)"
  by (simp add: validate_data_def class_statement_def)

end
